theory Spec2Isabelle
  imports Main
begin

section \<open>Data model (src/schemas.py)\<close>

text \<open>
  A \<open>datetime\<close> is a count of microseconds, the resolution of Python's \<open>datetime\<close>;
  \<open>timedelta(hours=h)\<close> is \<open>h\<close> hours in that unit. The store is modelled as handing
  documents back exactly as they were written.
\<close>

type_synonym datetime = int

definition timedelta_hours :: "int \<Rightarrow> int" where
  "timedelta_hours h = h * 3600000000"

record User =
  email :: string
  name :: "string option"
  hashed_password :: string
  created_at :: datetime
  updated_at :: datetime

record PasswordResetToken =
  user_email :: string
  token :: string
  expires_at :: datetime
  used :: bool
  created_at :: datetime
  updated_at :: datetime

text \<open>
  The two collections the auth routes touch, \<open>db["user"]\<close> and
  \<open>db["passwordresettoken"]\<close>. A collection is the list of its documents in insertion
  order. The routes never delete, so the position of a document never changes and stands
  for its \<open>_id\<close>: unique by construction, as the store's primary key is.
\<close>

record database =
  user :: "User list"
  passwordresettoken :: "PasswordResetToken list"

subsection \<open>Collection operations used by the routes\<close>

text \<open>\<open>find_one(filter)\<close>: the first document that matches, with its \<open>_id\<close>, or \<open>None\<close>.\<close>

fun find_one :: "('a \<Rightarrow> bool) \<Rightarrow> 'a list \<Rightarrow> (nat \<times> 'a) option" where
  "find_one P [] = None"
| "find_one P (x # xs) =
     (if P x then Some (0, x) else map_option (\<lambda>(i, y). (Suc i, y)) (find_one P xs))"

text \<open>\<open>insert_one(doc)\<close>: the document goes to the end and takes the next \<open>_id\<close>.\<close>

definition insert_one :: "'a \<Rightarrow> 'a list \<Rightarrow> 'a list" where
  "insert_one d xs = xs @ [d]"

text \<open>
  \<open>update_one(filter, {"$set": ...})\<close>: the first document that matches is rewritten;
  nothing happens when none matches (no upsert).
\<close>

fun update_one :: "('a \<Rightarrow> bool) \<Rightarrow> ('a \<Rightarrow> 'a) \<Rightarrow> 'a list \<Rightarrow> 'a list" where
  "update_one P f [] = []"
| "update_one P f (x # xs) = (if P x then f x # xs else x # update_one P f xs)"

text \<open>\<open>update_one({"_id": i}, {"$set": ...})\<close>: the filter names a document by its \<open>_id\<close>.\<close>

definition update_one_id :: "nat \<Rightarrow> ('a \<Rightarrow> 'a) \<Rightarrow> 'a list \<Rightarrow> 'a list" where
  "update_one_id i f xs = (if i < length xs then xs[i := f (xs ! i)] else xs)"

section \<open>Responses\<close>

datatype json = JNull | JBool bool | JStr string | JObj "(string \<times> json) list"

datatype HTTPException = HTTPException (status_code: nat) (detail: string)

text \<open>A route either raises an \<open>HTTPException\<close> or returns a dict, its body.\<close>

type_synonym response = "HTTPException + (string \<times> json) list"

text \<open>The status the client sees: that of the exception, or 200 for a returned body.\<close>

fun http_status :: "response \<Rightarrow> nat" where
  "http_status (Inl ex) = status_code ex"
| "http_status (Inr body) = 200"

section \<open>Environment of a request\<close>

text \<open>
  What a route reads from outside the store: the process variable \<open>APP_SALT\<close> (unset is
  \<open>None\<close>), and two library functions taken as parameters, \<open>sha256(s.encode()).hexdigest()\<close>
  and \<open>str\<close> of a \<open>datetime\<close>.
\<close>

record env =
  APP_SALT :: "string option"
  sha256_hexdigest :: "string \<Rightarrow> string"
  str_datetime :: "datetime \<Rightarrow> string"

text \<open>
  \<open>datetime.utcnow()\<close> is read several times within one request; \<open>clk k\<close> is the value
  of the read number \<open>k\<close> (from 0) of the request, in evaluation order.
\<close>

type_synonym clock = "nat \<Rightarrow> datetime"

section \<open>Utility helpers (src/main.py)\<close>

definition getenv :: "string option \<Rightarrow> string \<Rightarrow> string" where
  "getenv v dflt = (case v of None \<Rightarrow> dflt | Some s \<Rightarrow> s)"

definition hash_password :: "env \<Rightarrow> string \<Rightarrow> string" where
  "hash_password e pw =
     (let salt = getenv (APP_SALT e) ''static_salt_change_me''
      in sha256_hexdigest e (salt @ pw))"

section \<open>Routes (src/main.py)\<close>

text \<open>
  Each route takes the fields of its payload, the environment and the store, and returns
  its response with the store it leaves. The arguments \<open>em\<close>, \<open>pw\<close>, \<open>nm\<close>, \<open>tok\<close> are
  \<open>payload.email\<close>, \<open>payload.password\<close>, \<open>payload.name\<close>, \<open>payload.token\<close>.
\<close>

definition signup ::
  "env \<Rightarrow> clock \<Rightarrow> string \<Rightarrow> string \<Rightarrow> string option \<Rightarrow> database \<Rightarrow> response \<times> database" where
  "signup e clk em pw nm db =
     (case find_one (\<lambda>u. email u = em) (user db) of
        Some found \<Rightarrow> (Inl (HTTPException 400 ''Email already registered''), db)
      | None \<Rightarrow>
          (let doc = \<lparr>email = em, name = nm, hashed_password = hash_password e pw,
                      User.created_at = clk 0, User.updated_at = clk 1\<rparr>
           in (Inr [(''ok'', JBool True),
                    (''message'', JStr ''Account created. You can now log in.'')],
               db\<lparr>user := insert_one doc (user db)\<rparr>)))"

definition login ::
  "env \<Rightarrow> clock \<Rightarrow> string \<Rightarrow> string \<Rightarrow> database \<Rightarrow> response \<times> database" where
  "login e clk em pw db =
     (case find_one (\<lambda>u. email u = em) (user db) of
        None \<Rightarrow> (Inl (HTTPException 401 ''Invalid credentials''), db)
      | Some (uid, u) \<Rightarrow>
          if hashed_password u \<noteq> hash_password e pw
          then (Inl (HTTPException 401 ''Invalid credentials''), db)
          else
            (let tk = sha256_hexdigest e (em @ '':'' @ str_datetime e (clk 0))
             in (Inr [(''ok'', JBool True),
                      (''token'', JStr tk),
                      (''user'', JObj [(''email'', JStr (email u)),
                                       (''name'', (case name u of None \<Rightarrow> JNull
                                                   | Some n \<Rightarrow> JStr n))])],
                 db)))"

text \<open>\<open>uuid4_hex\<close> is the value \<open>uuid.uuid4().hex\<close> draws for this request.\<close>

definition password_reset_request ::
  "clock \<Rightarrow> string \<Rightarrow> string \<Rightarrow> database \<Rightarrow> response \<times> database" where
  "password_reset_request clk uuid4_hex em db =
     (case find_one (\<lambda>u. email u = em) (user db) of
        None \<Rightarrow>
          (Inr [(''ok'', JBool True),
                (''message'', JStr ''If that email exists, a reset link was sent.'')],
           db)
      | Some found \<Rightarrow>
          (let tk = uuid4_hex;
               exp = clk 0 + timedelta_hours 1;
               doc = \<lparr>user_email = em, token = tk, expires_at = exp, used = False,
                      PasswordResetToken.created_at = clk 1,
                      PasswordResetToken.updated_at = clk 2\<rparr>
           in (Inr [(''ok'', JBool True),
                    (''message'', JStr ''Reset email sent.''),
                    (''preview_token'', JStr tk)],
               db\<lparr>passwordresettoken := insert_one doc (passwordresettoken db)\<rparr>)))"

definition password_reset_confirm ::
  "env \<Rightarrow> clock \<Rightarrow> string \<Rightarrow> string \<Rightarrow> database \<Rightarrow> response \<times> database" where
  "password_reset_confirm e clk tok new_password db =
     (case find_one (\<lambda>r. token r = tok \<and> used r = False) (passwordresettoken db) of
        None \<Rightarrow> (Inl (HTTPException 400 ''Invalid token''), db)
      | Some (rid, r) \<Rightarrow>
          if expires_at r < clk 0
          then (Inl (HTTPException 400 ''Token expired''), db)
          else
            (let users' = update_one (\<lambda>u. email u = user_email r)
                            (\<lambda>u. u\<lparr>hashed_password := hash_password e new_password,
                                    User.updated_at := clk 1\<rparr>)
                            (user db);
                 tokens' = update_one_id rid
                             (\<lambda>t. t\<lparr>used := True, PasswordResetToken.updated_at := clk 2\<rparr>)
                             (passwordresettoken db)
             in (Inr [(''ok'', JBool True),
                      (''message'', JStr ''Password has been reset.'')],
                 db\<lparr>user := users', passwordresettoken := tokens'\<rparr>)))"

subsection \<open>Sequences of requests\<close>

text \<open>
  The four auth routes are the only code that writes the two collections (the blog and
  contact routes use collections of their own). A request comes with what it draws from
  outside: its clock reads and, for the forgot route, its uuid.
\<close>

datatype request =
    Signup string string "string option"
  | Login string string
  | Forgot string
  | Reset string string

fun handle :: "env \<Rightarrow> clock \<Rightarrow> string \<Rightarrow> request \<Rightarrow> database \<Rightarrow> response \<times> database" where
  "handle e clk uu (Signup em pw nm) db = signup e clk em pw nm db"
| "handle e clk uu (Login em pw) db = login e clk em pw db"
| "handle e clk uu (Forgot em) db = password_reset_request clk uu em db"
| "handle e clk uu (Reset tok pw) db = password_reset_confirm e clk tok pw db"

fun run :: "env \<Rightarrow> (clock \<times> string \<times> request) list \<Rightarrow> database \<Rightarrow> database" where
  "run e [] db = db"
| "run e ((clk, uu, rq) # rest) db = run e rest (snd (handle e clk uu rq db))"

subsection \<open>Vocabulary of the properties\<close>

text \<open>
  \<open>first_match P xs i\<close>: position \<open>i\<close> holds a document that matches \<open>P\<close> and no earlier
  one does, which is how the store picks the document of \<open>find_one\<close> and \<open>update_one\<close>.
\<close>

definition first_match :: "('a \<Rightarrow> bool) \<Rightarrow> 'a list \<Rightarrow> nat \<Rightarrow> bool" where
  "first_match P xs i \<longleftrightarrow> i < length xs \<and> P (xs ! i) \<and> list_all (\<lambda>x. \<not> P x) (take i xs)"

text \<open>
  An environment for running the routes on concrete inputs: \<open>APP_SALT\<close> unset, and
  collision-free stand-ins for the two library functions.
\<close>

definition test_env :: env where
  "test_env = \<lparr>APP_SALT = None, sha256_hexdigest = (\<lambda>s. s), str_datetime = (\<lambda>t. [])\<rparr>"

subsection \<open>Concrete stores and clocks\<close>

text \<open>
  Clocks and stores for running the routes on concrete inputs. The clock \<open>frozen_clock t\<close>
  stands still at \<open>t\<close> during a request; \<open>ticking_clock t\<close> advances by one microsecond
  at every read.
\<close>

definition frozen_clock :: "datetime \<Rightarrow> clock" where
  "frozen_clock t k = t"

definition ticking_clock :: "datetime \<Rightarrow> clock" where
  "ticking_clock t k = t + int k"

definition alice :: User where
  "alice = \<lparr>email = ''a@x.com'', name = None,
            hashed_password = ''static_salt_change_mep1'',
            User.created_at = 10, User.updated_at = 11\<rparr>"

definition token_T :: PasswordResetToken where
  "token_T = \<lparr>user_email = ''a@x.com'', token = ''T'', expires_at = 3600000100,
              used = False, PasswordResetToken.created_at = 101,
              PasswordResetToken.updated_at = 102\<rparr>"

definition store_empty :: database where
  "store_empty = \<lparr>user = [], passwordresettoken = []\<rparr>"

definition store_alice :: database where
  "store_alice = \<lparr>user = [alice], passwordresettoken = []\<rparr>"

definition store_issued :: database where
  "store_issued = \<lparr>user = [alice], passwordresettoken = [token_T]\<rparr>"

definition token_used :: PasswordResetToken where
  "token_used = \<lparr>user_email = ''a@x.com'', token = ''T'', expires_at = 3600000100,
                 used = True, PasswordResetToken.created_at = 101,
                 PasswordResetToken.updated_at = 202\<rparr>"

definition token_orphan :: PasswordResetToken where
  "token_orphan = \<lparr>user_email = ''ghost@x.com'', token = ''G'', expires_at = 3600000100,
                   used = False, PasswordResetToken.created_at = 101,
                   PasswordResetToken.updated_at = 102\<rparr>"

definition store_redeemed :: database where
  "store_redeemed = \<lparr>user = [alice], passwordresettoken = [token_used]\<rparr>"

definition store_two :: database where
  "store_two = \<lparr>user = [alice], passwordresettoken = [token_orphan, token_T]\<rparr>"

definition store_orphan :: database where
  "store_orphan = \<lparr>user = [alice], passwordresettoken = [token_orphan]\<rparr>"

definition ann :: User where
  "ann = \<lparr>email = ''A@x.com'', name = Some ''Ann'',
          hashed_password = ''static_salt_change_mep9'',
          User.created_at = 500, User.updated_at = 500\<rparr>"




section \<open>The digest (hashlib)\<close>

text \<open>
  \<open>sha256(s.encode()).hexdigest()\<close> is Python's standard library, not code of the
  routes; the routes reach it through the \<open>sha256_hexdigest\<close> field of the environment.
  Here is the function that field holds in the running process: SHA-256 as FIPS 180-4
  defines it, on 32-bit words written as naturals with the wrap-around explicit, rendered
  as 64 lowercase hexadecimal characters. A string is the list of its UTF-8 bytes.
\<close>

unbundle bit_operations_syntax

type_synonym u32 = nat

definition add32 :: "u32 \<Rightarrow> u32 \<Rightarrow> u32" where
  "add32 x y = (x + y) mod 4294967296"

definition rotr :: "nat \<Rightarrow> u32 \<Rightarrow> u32" where
  "rotr n x = x div 2 ^ n + (x mod 2 ^ n) * 2 ^ (32 - n)"

definition shr :: "nat \<Rightarrow> u32 \<Rightarrow> u32" where
  "shr n x = x div 2 ^ n"

definition not32 :: "u32 \<Rightarrow> u32" where
  "not32 x = 4294967295 - x"

definition Ch :: "u32 \<Rightarrow> u32 \<Rightarrow> u32 \<Rightarrow> u32" where
  "Ch x y z = (x AND y) XOR (not32 x AND z)"

definition Maj :: "u32 \<Rightarrow> u32 \<Rightarrow> u32 \<Rightarrow> u32" where
  "Maj x y z = (x AND y) XOR (x AND z) XOR (y AND z)"

definition Sigma0 :: "u32 \<Rightarrow> u32" where
  "Sigma0 x = rotr 2 x XOR rotr 13 x XOR rotr 22 x"

definition Sigma1 :: "u32 \<Rightarrow> u32" where
  "Sigma1 x = rotr 6 x XOR rotr 11 x XOR rotr 25 x"

definition sigma0 :: "u32 \<Rightarrow> u32" where
  "sigma0 x = rotr 7 x XOR rotr 18 x XOR shr 3 x"

definition sigma1 :: "u32 \<Rightarrow> u32" where
  "sigma1 x = rotr 17 x XOR rotr 19 x XOR shr 10 x"

text \<open>
  The round constants and the initial state, in decimal: the first 32 bits of the
  fractional parts of the cube roots of the first 64 primes, and of the square roots of
  the first 8.
\<close>

definition round_constants :: "u32 list" where
  "round_constants =
    [1116352408, 1899447441, 3049323471, 3921009573, 961987163, 1508970993,
     2453635748, 2870763221, 3624381080, 310598401, 607225278, 1426881987,
     1925078388, 2162078206, 2614888103, 3248222580, 3835390401, 4022224774,
     264347078, 604807628, 770255983, 1249150122, 1555081692, 1996064986,
     2554220882, 2821834349, 2952996808, 3210313671, 3336571891, 3584528711,
     113926993, 338241895, 666307205, 773529912, 1294757372, 1396182291,
     1695183700, 1986661051, 2177026350, 2456956037, 2730485921, 2820302411,
     3259730800, 3345764771, 3516065817, 3600352804, 4094571909, 275423344,
     430227734, 506948616, 659060556, 883997877, 958139571, 1322822218,
     1537002063, 1747873779, 1955562222, 2024104815, 2227730452, 2361852424,
     2428436474, 2756734187, 3204031479, 3329325298]"

type_synonym sha_state = "u32 \<times> u32 \<times> u32 \<times> u32 \<times> u32 \<times> u32 \<times> u32 \<times> u32"

definition initial_state :: sha_state where
  "initial_state =
          (1779033703, 3144134277, 1013904242, 2773480762,
           1359893119, 2600822924, 528734635, 1541459225)"

text \<open>\<open>len\<close> is \<open>length\<close>, counted in numerals.\<close>

fun len :: "'a list \<Rightarrow> nat" where
  "len [] = 0"
| "len (x # xs) = 1 + len xs"

fun zeros :: "nat \<Rightarrow> nat list" where
  "zeros 0 = []"
| "zeros (Suc n) = 0 # zeros n"

definition be_bytes8 :: "nat \<Rightarrow> nat list" where
  "be_bytes8 n =
     [n div 2 ^ 56 mod 256, n div 2 ^ 48 mod 256, n div 2 ^ 40 mod 256, n div 2 ^ 32 mod 256,
      n div 2 ^ 24 mod 256, n div 2 ^ 16 mod 256, n div 2 ^ 8 mod 256, n mod 256]"

text \<open>
  Padding: the byte 128, zero bytes up to 56 modulo 64, then the length of the message in
  bits on 8 bytes, most significant first.
\<close>

definition pad :: "nat list \<Rightarrow> nat list" where
  "pad m = m @ [128] @ zeros ((119 - len m mod 64) mod 64) @ be_bytes8 (8 * len m)"

fun be_words :: "nat list \<Rightarrow> u32 list" where
  "be_words (a # b # c # d # rest) = (((a * 256 + b) * 256 + c) * 256 + d) # be_words rest"
| "be_words rest = []"

text \<open>The message schedule: \<open>schedule 48\<close> extends the 16 words of a block to 64.\<close>

fun schedule :: "nat \<Rightarrow> u32 list \<Rightarrow> u32 list" where
  "schedule 0 w = w"
| "schedule (Suc n) w =
     schedule n
       (w @ [add32 (add32 (add32 (sigma1 (w ! (len w - 2))) (w ! (len w - 7)))
                      (sigma0 (w ! (len w - 15)))) (w ! (len w - 16))])"

fun round_step :: "sha_state \<Rightarrow> u32 \<times> u32 \<Rightarrow> sha_state" where
  "round_step (a, b, c, d, e, f, g, h) (k, w) =
     (let t1 = add32 (add32 (add32 (add32 h (Sigma1 e)) (Ch e f g)) k) w;
          t2 = add32 (Sigma0 a) (Maj a b c)
      in (add32 t1 t2, a, b, c, add32 d t1, e, f, g))"

fun add_state :: "sha_state \<Rightarrow> sha_state \<Rightarrow> sha_state" where
  "add_state (a, b, c, d, e, f, g, h) (a', b', c', d', e', f', g', h') =
     (add32 a a', add32 b b', add32 c c', add32 d d',
      add32 e e', add32 f f', add32 g g', add32 h h')"

definition compress :: "sha_state \<Rightarrow> u32 list \<Rightarrow> sha_state" where
  "compress st block =
     add_state st (foldl round_step st (zip round_constants (schedule 48 block)))"

fun blocks :: "nat \<Rightarrow> u32 list \<Rightarrow> u32 list list" where
  "blocks 0 ws = []"
| "blocks (Suc n) ws = take 16 ws # blocks n (drop 16 ws)"

fun state_words :: "sha_state \<Rightarrow> u32 list" where
  "state_words (a, b, c, d, e, f, g, h) = [a, b, c, d, e, f, g, h]"

definition sha256 :: "nat list \<Rightarrow> u32 list" where
  "sha256 m =
     (let ws = be_words (pad m)
      in state_words (foldl compress initial_state (blocks (len ws div 16) ws)))"

definition hex_digit :: "nat \<Rightarrow> char" where
  "hex_digit n = ''0123456789abcdef'' ! n"

definition hex_word :: "u32 \<Rightarrow> string" where
  "hex_word w =
     [hex_digit (w div 16 ^ 7 mod 16), hex_digit (w div 16 ^ 6 mod 16),
      hex_digit (w div 16 ^ 5 mod 16), hex_digit (w div 16 ^ 4 mod 16),
      hex_digit (w div 16 ^ 3 mod 16), hex_digit (w div 16 ^ 2 mod 16),
      hex_digit (w div 16 mod 16), hex_digit (w mod 16)]"

definition sha256_hex :: "string \<Rightarrow> string" where
  "sha256_hex s = concat (map hex_word (sha256 (map of_char s)))"


section \<open>Facts about the collection operations\<close>

lemma find_one_None_iff: "find_one P xs = None \<longleftrightarrow> (\<forall>x\<in>set xs. \<not> P x)"
  by (induction xs) auto

lemma find_one_Some_iff:
  "find_one P xs = Some (i, x) \<longleftrightarrow> first_match P xs i \<and> x = xs ! i"
proof (induction xs arbitrary: i)
  case Nil
  show ?case by (simp add: first_match_def)
next
  case (Cons a xs)
  show ?case
  proof (cases "P a")
    case True
    then show ?thesis
      by (cases i) (auto simp: first_match_def)
  next
    case False
    show ?thesis
    proof (cases i)
      case 0
      with False show ?thesis by (auto simp: first_match_def)
    next
      case (Suc k)
      with False Cons.IH [of k] show ?thesis
        by (auto simp: first_match_def)
    qed
  qed
qed

lemma first_match_unique:
  "first_match P xs i \<Longrightarrow> first_match P xs j \<Longrightarrow> i = j"
  by (metis find_one_Some_iff option.inject prod.inject)

lemma update_one_miss: "\<forall>x\<in>set xs. \<not> P x \<Longrightarrow> update_one P f xs = xs"
  by (induction xs) auto

lemma update_one_hit: "first_match P xs i \<Longrightarrow> update_one P f xs = xs[i := f (xs ! i)]"
proof (induction xs arbitrary: i)
  case Nil
  then show ?case by (simp add: first_match_def)
next
  case (Cons a xs)
  show ?case
  proof (cases i)
    case 0
    with Cons.prems show ?thesis by (simp add: first_match_def)
  next
    case (Suc k)
    with Cons.prems have "\<not> P a" and "first_match P xs k"
      by (auto simp: first_match_def)
    with Cons.IH [of k] Suc show ?thesis by simp
  qed
qed

lemma length_update_one [simp]: "length (update_one P f xs) = length xs"
  by (induction xs) auto

lemma first_match_exists: "\<exists>x\<in>set xs. P x \<Longrightarrow> \<exists>i. first_match P xs i"
proof -
  assume "\<exists>x\<in>set xs. P x"
  then have "find_one P xs \<noteq> None" by (simp add: find_one_None_iff)
  then obtain i x where "find_one P xs = Some (i, x)" by (cases "find_one P xs") auto
  then show ?thesis by (auto simp: find_one_Some_iff)
qed

section \<open>The reset route\<close>

lemma confirm_none:
  "\<forall>r\<in>set (passwordresettoken db). \<not> (token r = tok \<and> used r = False) \<Longrightarrow>
   password_reset_confirm e clk tok pw db = (Inl (HTTPException 400 ''Invalid token''), db)"
  by (simp add: password_reset_confirm_def find_one_None_iff [THEN iffD2])

lemma confirm_expired:
  "first_match (\<lambda>r. token r = tok \<and> used r = False) (passwordresettoken db) i \<Longrightarrow>
   expires_at (passwordresettoken db ! i) < clk 0 \<Longrightarrow>
   password_reset_confirm e clk tok pw db = (Inl (HTTPException 400 ''Token expired''), db)"
  using find_one_Some_iff [of "\<lambda>r. token r = tok \<and> used r = False" "passwordresettoken db" i "passwordresettoken db ! i"]
  by (simp add: password_reset_confirm_def)

lemma confirm_ok:
  "first_match (\<lambda>r. token r = tok \<and> used r = False) (passwordresettoken db) i \<Longrightarrow>
   \<not> expires_at (passwordresettoken db ! i) < clk 0 \<Longrightarrow>
   password_reset_confirm e clk tok pw db =
     (Inr [(''ok'', JBool True), (''message'', JStr ''Password has been reset.'')],
      db\<lparr>user := update_one (\<lambda>u. email u = user_email (passwordresettoken db ! i))
                 (\<lambda>u. u\<lparr>hashed_password := hash_password e pw, User.updated_at := clk 1\<rparr>)
                 (user db),
         passwordresettoken := (passwordresettoken db)
           [i := (passwordresettoken db ! i)\<lparr>used := True, PasswordResetToken.updated_at := clk 2\<rparr>]\<rparr>)"
  using find_one_Some_iff [of "\<lambda>r. token r = tok \<and> used r = False" "passwordresettoken db" i "passwordresettoken db ! i"]
  by (simp add: password_reset_confirm_def update_one_id_def first_match_def)


text \<open>
  C1. \<open>password_reset_confirm\<close> is the three-step state machine. (1) When no document of
  \<open>passwordresettoken\<close> carries the given token string with \<open>used = False\<close>, it raises
  400 "Invalid token" and writes nothing. (2) When the document it finds (the first with
  that token string and \<open>used = False\<close>) has \<open>expires_at\<close> earlier than the clock, it
  raises 400 "Token expired" and writes nothing. (3) Otherwise it returns the ok body,
  the found token document becomes \<open>used = True\<close> with \<open>updated_at\<close> the clock read at
  that write, and the user document matched by the token's \<open>user_email\<close> gets
  \<open>hashed_password = hash_password new_password\<close> with \<open>updated_at\<close> the clock read at
  that write (no user document changes when none matches).
\<close>

theorem password_reset_confirm_three_steps:
  "((\<forall>r\<in>set (passwordresettoken db). token r = tok \<longrightarrow> used r) \<longrightarrow>
      password_reset_confirm e clk tok pw db =
        (Inl (HTTPException 400 ''Invalid token''), db))
   \<and> (\<forall>i. first_match (\<lambda>r. token r = tok \<and> used r = False) (passwordresettoken db) i \<and>
          expires_at (passwordresettoken db ! i) < clk 0 \<longrightarrow>
      password_reset_confirm e clk tok pw db =
        (Inl (HTTPException 400 ''Token expired''), db))
   \<and> (\<forall>i. first_match (\<lambda>r. token r = tok \<and> used r = False) (passwordresettoken db) i \<and>
          \<not> expires_at (passwordresettoken db ! i) < clk 0 \<longrightarrow>
      (let r = passwordresettoken db ! i;
           res = password_reset_confirm e clk tok pw db
       in fst res = Inr [(''ok'', JBool True), (''message'', JStr ''Password has been reset.'')]
          \<and> passwordresettoken (snd res) =
              (passwordresettoken db)
                [i := r\<lparr>used := True, PasswordResetToken.updated_at := clk 2\<rparr>]
          \<and> (\<forall>j. first_match (\<lambda>u. email u = user_email r) (user db) j \<longrightarrow>
                user (snd res) =
                  (user db)[j := (user db ! j)\<lparr>hashed_password := hash_password e pw,
                                               User.updated_at := clk 1\<rparr>])
          \<and> ((\<forall>u\<in>set (user db). email u \<noteq> user_email r) \<longrightarrow>
                user (snd res) = user db)))"
proof (intro conjI allI impI)
  assume "\<forall>r\<in>set (passwordresettoken db). token r = tok \<longrightarrow> used r"
  then show "password_reset_confirm e clk tok pw db =
        (Inl (HTTPException 400 ''Invalid token''), db)"
    by (intro confirm_none) simp
next
  fix i
  assume "first_match (\<lambda>r. token r = tok \<and> used r = False) (passwordresettoken db) i \<and>
          expires_at (passwordresettoken db ! i) < clk 0"
  then show "password_reset_confirm e clk tok pw db =
        (Inl (HTTPException 400 ''Token expired''), db)"
    by (auto intro: confirm_expired)
next
  fix i
  assume a: "first_match (\<lambda>r. token r = tok \<and> used r = False) (passwordresettoken db) i \<and>
          \<not> expires_at (passwordresettoken db ! i) < clk 0"
  note ok = confirm_ok [of tok db i clk e pw, OF conjunct1 [OF a] conjunct2 [OF a]]
  show "(let r = passwordresettoken db ! i;
           res = password_reset_confirm e clk tok pw db
       in fst res = Inr [(''ok'', JBool True), (''message'', JStr ''Password has been reset.'')]
          \<and> passwordresettoken (snd res) =
              (passwordresettoken db)
                [i := r\<lparr>used := True, PasswordResetToken.updated_at := clk 2\<rparr>]
          \<and> (\<forall>j. first_match (\<lambda>u. email u = user_email r) (user db) j \<longrightarrow>
                user (snd res) =
                  (user db)[j := (user db ! j)\<lparr>hashed_password := hash_password e pw,
                                               User.updated_at := clk 1\<rparr>])
          \<and> ((\<forall>u\<in>set (user db). email u \<noteq> user_email r) \<longrightarrow>
                user (snd res) = user db))"
    unfolding Let_def ok
    by (auto simp: update_one_hit update_one_miss)
qed

theorem password_reset_confirm_three_steps_witness:
  "\<not> (\<exists>r\<in>set (passwordresettoken store_issued). token r = ''U'' \<and> \<not> used r)
   \<and> password_reset_confirm test_env (ticking_clock 200) ''U'' ''p2'' store_issued =
       (Inl (HTTPException 400 ''Invalid token''), store_issued)
   \<and> first_match (\<lambda>r. token r = ''T'' \<and> used r = False) (passwordresettoken store_issued) 0
   \<and> expires_at (passwordresettoken store_issued ! 0) < ticking_clock 3600000101 0
   \<and> password_reset_confirm test_env (ticking_clock 3600000101) ''T'' ''p2'' store_issued =
       (Inl (HTTPException 400 ''Token expired''), store_issued)
   \<and> \<not> expires_at (passwordresettoken store_issued ! 0) < ticking_clock 200 0
   \<and> first_match (\<lambda>u. email u = user_email (passwordresettoken store_issued ! 0))
       (user store_issued) 0
   \<and> password_reset_confirm test_env (ticking_clock 200) ''T'' ''p2'' store_issued =
       (Inr [(''ok'', JBool True), (''message'', JStr ''Password has been reset.'')],
        \<lparr>user = [alice\<lparr>hashed_password := ''static_salt_change_mep2'',
                        User.updated_at := 201\<rparr>],
         passwordresettoken = [token_T\<lparr>used := True,
                                       PasswordResetToken.updated_at := 202\<rparr>]\<rparr>)"
proof -
  have h1: "\<forall>r\<in>set (passwordresettoken store_issued). token r = ''U'' \<longrightarrow> used r"
    by (simp add: store_issued_def token_T_def)
  have h2: "first_match (\<lambda>r. token r = ''T'' \<and> used r = False) (passwordresettoken store_issued) 0"
    by (simp add: first_match_def store_issued_def token_T_def)
  have h3: "expires_at (passwordresettoken store_issued ! 0) < ticking_clock 3600000101 0"
    by (simp add: store_issued_def token_T_def ticking_clock_def)
  have h4: "\<not> expires_at (passwordresettoken store_issued ! 0) < ticking_clock 200 0"
    by (simp add: store_issued_def token_T_def ticking_clock_def)
  have h5: "first_match (\<lambda>u. email u = user_email (passwordresettoken store_issued ! 0))
       (user store_issued) 0"
    by (simp add: first_match_def store_issued_def token_T_def alice_def)
  note A = password_reset_confirm_three_steps [of store_issued "''U''" test_env "ticking_clock 200" "''p2''"]
  note B = password_reset_confirm_three_steps [of store_issued "''T''" test_env "ticking_clock 3600000101" "''p2''"]
  note C = password_reset_confirm_three_steps [of store_issued "''T''" test_env "ticking_clock 200" "''p2''"]
  have c1: "password_reset_confirm test_env (ticking_clock 200) ''U'' ''p2'' store_issued =
       (Inl (HTTPException 400 ''Invalid token''), store_issued)"
    using A h1 by blast
  have c2: "password_reset_confirm test_env (ticking_clock 3600000101) ''T'' ''p2'' store_issued =
       (Inl (HTTPException 400 ''Token expired''), store_issued)"
    using B h2 h3 by blast
  have c3: "password_reset_confirm test_env (ticking_clock 200) ''T'' ''p2'' store_issued =
       (Inr [(''ok'', JBool True), (''message'', JStr ''Password has been reset.'')],
        \<lparr>user = [alice\<lparr>hashed_password := ''static_salt_change_mep2'',
                        User.updated_at := 201\<rparr>],
         passwordresettoken = [token_T\<lparr>used := True,
                                       PasswordResetToken.updated_at := 202\<rparr>]\<rparr>)"
  proof -
    let ?res = "password_reset_confirm test_env (ticking_clock 200) ''T'' ''p2'' store_issued"
    from C h2 h4 have step3:
      "fst ?res = Inr [(''ok'', JBool True), (''message'', JStr ''Password has been reset.'')]
       \<and> passwordresettoken (snd ?res) =
             (passwordresettoken store_issued)
               [0 := (passwordresettoken store_issued ! 0)
                       \<lparr>used := True, PasswordResetToken.updated_at := ticking_clock 200 2\<rparr>]
       \<and> (\<forall>j. first_match (\<lambda>u. email u = user_email (passwordresettoken store_issued ! 0))
                 (user store_issued) j \<longrightarrow>
               user (snd ?res) =
                 (user store_issued)
                   [j := (user store_issued ! j)
                           \<lparr>hashed_password := hash_password test_env ''p2'',
                              User.updated_at := ticking_clock 200 1\<rparr>])"
      unfolding Let_def by blast
    with h5 have usr: "user (snd ?res) =
                 (user store_issued)
                   [0 := (user store_issued ! 0)
                           \<lparr>hashed_password := hash_password test_env ''p2'',
                              User.updated_at := ticking_clock 200 1\<rparr>]"
      by blast
    from step3 usr show ?thesis
      by (simp add: prod_eq_iff store_issued_def ticking_clock_def hash_password_def
            getenv_def test_env_def)
  qed
  from h1 h2 h3 h4 h5 c1 c2 c3 show ?thesis by simp
qed

lemma first_match_append_new:
  "\<forall>x\<in>set xs. \<not> P x \<Longrightarrow> P d \<Longrightarrow> first_match P (xs @ [d]) (length xs)"
  by (simp add: first_match_def list_all_iff)

lemma first_match_update:
  "first_match P xs i \<Longrightarrow> P (f (xs ! i)) \<Longrightarrow> first_match P (xs[i := f (xs ! i)]) i"
  by (simp add: first_match_def)

lemma first_match_only:
  assumes "i < length xs" and "P (xs ! i)"
    and "\<forall>j<length xs. j \<noteq> i \<longrightarrow> \<not> P (xs ! j)"
  shows "first_match P xs i"
proof -
  have "\<forall>x\<in>set (take i xs). \<not> P x"
  proof
    fix x assume "x \<in> set (take i xs)"
    then obtain j where "j < length (take i xs)" and "x = take i xs ! j"
      by (auto simp: in_set_conv_nth)
    with assms show "\<not> P x" by auto
  qed
  with assms show ?thesis by (simp add: first_match_def list_all_iff)
qed

text \<open>
  C10. The \<open>user_email\<close> of a token is never checked against the \<open>user\<close> collection:
  for a token document that the lookup finds (token string given, \<open>used = False\<close>), not
  expired, whose \<open>user_email\<close> is the email of no user document, the route still returns
  the ok body and marks the token \<open>used = True\<close>, and the \<open>user\<close> collection stays as it
  was: no document is created, none is changed.
\<close>
theorem password_reset_confirm_orphan_token:
  assumes "first_match (\<lambda>r. token r = tok \<and> used r = False) (passwordresettoken db) i"
    and "\<not> expires_at (passwordresettoken db ! i) < clk 0"
    and "\<forall>u\<in>set (user db). email u \<noteq> user_email (passwordresettoken db ! i)"
  shows "password_reset_confirm e clk tok pw db =
           (Inr [(''ok'', JBool True), (''message'', JStr ''Password has been reset.'')],
            db\<lparr>passwordresettoken := (passwordresettoken db)
                  [i := (passwordresettoken db ! i)
                          \<lparr>used := True, PasswordResetToken.updated_at := clk 2\<rparr>]\<rparr>)
         \<and> user (snd (password_reset_confirm e clk tok pw db)) = user db
         \<and> used (passwordresettoken (snd (password_reset_confirm e clk tok pw db)) ! i)"
proof -
  from assms(3) have "update_one (\<lambda>u. email u = user_email (passwordresettoken db ! i))
                 (\<lambda>u. u\<lparr>hashed_password := hash_password e pw, User.updated_at := clk 1\<rparr>)
                 (user db) = user db"
    by (intro update_one_miss) simp
  moreover from assms(1) have "i < length (passwordresettoken db)"
    by (simp add: first_match_def)
  ultimately show ?thesis
    using confirm_ok [of tok db i clk e pw, OF assms(1) assms(2)] by simp
qed

theorem password_reset_confirm_orphan_token_witness:
  "first_match (\<lambda>r. token r = ''G'' \<and> used r = False) (passwordresettoken store_orphan) 0
   \<and> \<not> expires_at (passwordresettoken store_orphan ! 0) < ticking_clock 200 0
   \<and> \<not> (\<exists>u\<in>set (user store_orphan). email u = user_email (passwordresettoken store_orphan ! 0))
   \<and> password_reset_confirm test_env (ticking_clock 200) ''G'' ''p2'' store_orphan =
       (Inr [(''ok'', JBool True), (''message'', JStr ''Password has been reset.'')],
        \<lparr>user = [alice],
         passwordresettoken = [token_orphan\<lparr>used := True,
                                 PasswordResetToken.updated_at := 202\<rparr>]\<rparr>)"
proof -
  have h1: "first_match (\<lambda>r. token r = ''G'' \<and> used r = False) (passwordresettoken store_orphan) 0"
    by (simp add: first_match_def store_orphan_def token_orphan_def)
  have h2: "\<not> expires_at (passwordresettoken store_orphan ! 0) < ticking_clock 200 0"
    by (simp add: store_orphan_def token_orphan_def ticking_clock_def)
  have h3: "\<forall>u\<in>set (user store_orphan). email u \<noteq> user_email (passwordresettoken store_orphan ! 0)"
    by (simp add: store_orphan_def token_orphan_def alice_def)
  from password_reset_confirm_orphan_token [of "''G''" store_orphan 0 "ticking_clock 200" test_env "''p2''", OF h1 h2 h3]
  have "password_reset_confirm test_env (ticking_clock 200) ''G'' ''p2'' store_orphan =
       (Inr [(''ok'', JBool True), (''message'', JStr ''Password has been reset.'')],
        \<lparr>user = [alice],
         passwordresettoken = [token_orphan\<lparr>used := True,
                                 PasswordResetToken.updated_at := 202\<rparr>]\<rparr>)"
    by (simp add: store_orphan_def ticking_clock_def)
  with h1 h2 h3 show ?thesis by simp
qed

text \<open>
  C3, amended. Take an issued token: a document of \<open>passwordresettoken\<close> whose token string
  no other document carries. A call with its token string changes the store, and so a
  password, only while the document has \<open>used = False\<close> and the clock is not later than
  \<open>expires_at\<close> (\<open>now \<le> expires_at\<close>: at \<open>now = expires_at\<close> the token still redeems).
  When the document has \<open>used = False\<close> and \<open>expires_at\<close> is earlier than the clock, the
  call raises 400 "Token expired" and leaves the whole store, hence every password and
  the token's \<open>used = False\<close>, as it was. When the document has \<open>used = True\<close> the call
  raises 400 "Invalid token", whatever its \<open>expires_at\<close>.
\<close>
theorem reset_token_redeemable_window:
  assumes "i < length (passwordresettoken db)"
    and "\<forall>j<length (passwordresettoken db). j \<noteq> i \<longrightarrow>
           token (passwordresettoken db ! j) \<noteq> token (passwordresettoken db ! i)"
  shows "let r = passwordresettoken db ! i;
             res = password_reset_confirm e clk (token r) pw db
         in (snd res \<noteq> db \<longrightarrow> used r = False \<and> clk 0 \<le> expires_at r)
          \<and> (used r = False \<and> expires_at r < clk 0 \<longrightarrow>
               res = (Inl (HTTPException 400 ''Token expired''), db))
          \<and> (used r \<longrightarrow> res = (Inl (HTTPException 400 ''Invalid token''), db))"
proof -
  let ?toks = "passwordresettoken db"
  let ?r = "?toks ! i"
  let ?P = "\<lambda>r. token r = token ?r \<and> used r = False"
  let ?res = "password_reset_confirm e clk (token ?r) pw db"
  have used_case: "?res = (Inl (HTTPException 400 ''Invalid token''), db)" if u: "used ?r"
  proof (rule confirm_none, rule ballI)
    fix x assume "x \<in> set ?toks"
    then obtain j where j: "j < length ?toks" "x = ?toks ! j"
      by (auto simp: in_set_conv_nth)
    show "\<not> (token x = token ?r \<and> used x = False)"
    proof (cases "j = i")
      case True with j u show ?thesis by simp
    next
      case False with j assms(2) show ?thesis by simp
    qed
  qed
  have fm: "first_match ?P ?toks i" if "\<not> used ?r"
    using assms that by (intro first_match_only) auto
  have exp_case: "?res = (Inl (HTTPException 400 ''Token expired''), db)"
    if "\<not> used ?r" "expires_at ?r < clk 0"
    using confirm_expired [of "token ?r" db i clk e pw] fm that by simp
  have "snd ?res = db" if "used ?r \<or> expires_at ?r < clk 0"
    using that used_case exp_case by (cases "used ?r") auto
  then have "snd ?res \<noteq> db \<longrightarrow> used ?r = False \<and> clk 0 \<le> expires_at ?r"
    by (auto simp: not_less [symmetric])
  with used_case exp_case show ?thesis
    unfolding Let_def by blast
qed

theorem reset_token_redeemable_window_witness:
  "1 < length (passwordresettoken store_two)
   \<and> token (passwordresettoken store_two ! 0) \<noteq> token (passwordresettoken store_two ! 1)
   \<and> used (passwordresettoken store_two ! 1) = False
   \<and> expires_at (passwordresettoken store_two ! 1) < frozen_clock 3600000101 0
   \<and> password_reset_confirm test_env (frozen_clock 3600000101)
        (token (passwordresettoken store_two ! 1)) ''p2'' store_two =
       (Inl (HTTPException 400 ''Token expired''), store_two)"
proof -
  have h1: "1 < length (passwordresettoken store_two)"
    by (simp add: store_two_def)
  have h2: "\<forall>j<length (passwordresettoken store_two). j \<noteq> 1 \<longrightarrow>
           token (passwordresettoken store_two ! j) \<noteq> token (passwordresettoken store_two ! 1)"
    by (auto simp: store_two_def token_T_def token_orphan_def less_Suc_eq numeral_2_eq_2)
  have h3: "used (passwordresettoken store_two ! 1) = False"
    by (simp add: store_two_def token_T_def)
  have h4: "expires_at (passwordresettoken store_two ! 1) < frozen_clock 3600000101 0"
    by (simp add: store_two_def token_T_def frozen_clock_def)
  have h5: "token (passwordresettoken store_two ! 0) \<noteq> token (passwordresettoken store_two ! 1)"
    by (simp add: store_two_def token_T_def token_orphan_def)
  from reset_token_redeemable_window [of 1 store_two test_env "frozen_clock 3600000101" "''p2''", OF h1 h2] h3 h4
  have "password_reset_confirm test_env (frozen_clock 3600000101)
        (token (passwordresettoken store_two ! 1)) ''p2'' store_two =
       (Inl (HTTPException 400 ''Token expired''), store_two)"
    unfolding Let_def by blast
  with h1 h3 h4 h5 show ?thesis by blast
qed

text \<open>
  The claim as written fails on the boundary and on redeemed tokens: with the clock equal
  to \<open>expires_at\<close> (so \<open>now < expires_at\<close> is false) the password of the user is replaced;
  and a token with \<open>used = True\<close> whose \<open>expires_at\<close> is in the past yields "Invalid token",
  not "Token expired".
\<close>

theorem reset_token_window_counterexample:
  "used (passwordresettoken store_issued ! 0) = False
   \<and> \<not> frozen_clock 3600000100 0 < expires_at (passwordresettoken store_issued ! 0)
   \<and> hashed_password (user store_issued ! 0) = ''static_salt_change_mep1''
   \<and> hashed_password
        (user (snd (password_reset_confirm test_env (frozen_clock 3600000100) ''T'' ''p2''
                      store_issued)) ! 0) = ''static_salt_change_mep2''
   \<and> expires_at (passwordresettoken store_redeemed ! 0) < frozen_clock 3600000101 0
   \<and> fst (password_reset_confirm test_env (frozen_clock 3600000101) ''T'' ''p2''
             store_redeemed) = Inl (HTTPException 400 ''Invalid token'')"
  by (simp add: store_issued_def store_redeemed_def token_T_def token_used_def alice_def
        frozen_clock_def password_reset_confirm_def update_one_id_def hash_password_def
        getenv_def test_env_def)

text \<open>
  C4. A freshly issued, unexpired token redeems exactly once. The forgot route is called
  for the email of an existing user and draws a token string that no unused document
  carries; the first \<open>password_reset_confirm\<close> with that string, at a clock not later than
  the token's \<open>expires_at\<close> (the issuing clock plus one hour), returns the ok body and the
  user found by that email now holds \<open>hash_password new_password\<close>; a second call with
  the same string, right after, raises 400 "Invalid token" and writes nothing.
\<close>
theorem fresh_token_redeems_once:
  assumes "\<exists>u\<in>set (user db). email u = em"
    and "\<forall>r\<in>set (passwordresettoken db). token r = tk \<longrightarrow> used r"
    and "\<not> clk_issue 0 + 3600000000 < clk_first 0"
  shows "let issued = password_reset_request clk_issue tk em db;
             first = password_reset_confirm e clk_first tk pw (snd issued);
             second = password_reset_confirm e clk_second tk pw' (snd first)
         in fst issued = Inr [(''ok'', JBool True), (''message'', JStr ''Reset email sent.''),
                              (''preview_token'', JStr tk)]
          \<and> fst first = Inr [(''ok'', JBool True),
                             (''message'', JStr ''Password has been reset.'')]
          \<and> (\<exists>j. first_match (\<lambda>u. email u = em) (user (snd first)) j
                 \<and> hashed_password (user (snd first) ! j) = hash_password e pw)
          \<and> second = (Inl (HTTPException 400 ''Invalid token''), snd first)"
proof -
  let ?toks = "passwordresettoken db"
  let ?doc = "\<lparr>user_email = em, token = tk, expires_at = clk_issue 0 + 3600000000, used = False,
               PasswordResetToken.created_at = clk_issue 1,
               PasswordResetToken.updated_at = clk_issue 2\<rparr>"
  let ?issued_db = "db\<lparr>passwordresettoken := ?toks @ [?doc]\<rparr>"
  let ?P = "\<lambda>r. token r = tk \<and> used r = False"
  let ?f = "\<lambda>u. u\<lparr>hashed_password := hash_password e pw, User.updated_at := clk_first 1\<rparr>"
  from assms(1) have "find_one (\<lambda>u. email u = em) (user db) \<noteq> None"
    by (simp add: find_one_None_iff)
  then have issued: "password_reset_request clk_issue tk em db =
      (Inr [(''ok'', JBool True), (''message'', JStr ''Reset email sent.''),
            (''preview_token'', JStr tk)], ?issued_db)"
    by (auto simp: password_reset_request_def insert_one_def timedelta_hours_def)
  from assms(2) have fm: "first_match ?P (passwordresettoken ?issued_db) (length ?toks)"
    using first_match_append_new [of ?toks ?P ?doc] by auto
  have nexp: "\<not> expires_at (passwordresettoken ?issued_db ! length ?toks) < clk_first 0"
    using assms(3) by simp
  let ?redeemed_db = "?issued_db\<lparr>user := update_one (\<lambda>u. email u = em) ?f (user db),
                   passwordresettoken := ?toks @ [?doc\<lparr>used := True,
                       PasswordResetToken.updated_at := clk_first 2\<rparr>]\<rparr>"
  have first: "password_reset_confirm e clk_first tk pw ?issued_db =
      (Inr [(''ok'', JBool True), (''message'', JStr ''Password has been reset.'')], ?redeemed_db)"
    using confirm_ok [of tk ?issued_db "length ?toks" clk_first e pw, OF fm nexp] by simp
  from assms(1) obtain j where j: "first_match (\<lambda>u. email u = em) (user db) j"
    using first_match_exists [of "user db" "\<lambda>u. email u = em"] by auto
  then have upd: "user ?redeemed_db = (user db)[j := ?f (user db ! j)]"
    by (simp add: update_one_hit)
  from j have "first_match (\<lambda>u. email u = em) (user ?redeemed_db) j"
    unfolding upd by (intro first_match_update) (simp_all add: first_match_def)
  moreover from j have "hashed_password (user ?redeemed_db ! j) = hash_password e pw"
    unfolding upd by (simp add: first_match_def)
  ultimately have pw_set: "\<exists>j. first_match (\<lambda>u. email u = em) (user ?redeemed_db) j
                 \<and> hashed_password (user ?redeemed_db ! j) = hash_password e pw"
    by blast
  from assms(2) have "\<forall>r\<in>set (passwordresettoken ?redeemed_db). \<not> (token r = tk \<and> used r = False)"
    by auto
  then have second: "password_reset_confirm e clk_second tk pw' ?redeemed_db =
      (Inl (HTTPException 400 ''Invalid token''), ?redeemed_db)"
    by (rule confirm_none)
  show ?thesis
    unfolding Let_def issued snd_conv fst_conv first second
    using pw_set by simp
qed

theorem fresh_token_redeems_once_witness:
  "(\<exists>u\<in>set (user store_alice). email u = ''a@x.com'')
   \<and> \<not> (\<exists>r\<in>set (passwordresettoken store_alice). token r = ''T'' \<and> \<not> used r)
   \<and> \<not> ticking_clock 100 0 + 3600000000 < ticking_clock 200 0
   \<and> password_reset_request (ticking_clock 100) ''T'' ''a@x.com'' store_alice =
       (Inr [(''ok'', JBool True), (''message'', JStr ''Reset email sent.''),
             (''preview_token'', JStr ''T'')], store_issued)
   \<and> fst (password_reset_confirm test_env (ticking_clock 200) ''T'' ''p2'' store_issued) =
       Inr [(''ok'', JBool True), (''message'', JStr ''Password has been reset.'')]
   \<and> password_reset_confirm test_env (ticking_clock 300) ''T'' ''p3''
        (snd (password_reset_confirm test_env (ticking_clock 200) ''T'' ''p2'' store_issued)) =
       (Inl (HTTPException 400 ''Invalid token''),
        snd (password_reset_confirm test_env (ticking_clock 200) ''T'' ''p2'' store_issued))"
proof -
  have h1: "\<exists>u\<in>set (user store_alice). email u = ''a@x.com''"
    by (simp add: store_alice_def alice_def)
  have h2: "\<forall>r\<in>set (passwordresettoken store_alice). token r = ''T'' \<longrightarrow> used r"
    by (simp add: store_alice_def)
  have h3: "\<not> ticking_clock 100 0 + 3600000000 < ticking_clock 200 0"
    by (simp add: ticking_clock_def)
  have issued: "password_reset_request (ticking_clock 100) ''T'' ''a@x.com'' store_alice =
       (Inr [(''ok'', JBool True), (''message'', JStr ''Reset email sent.''),
             (''preview_token'', JStr ''T'')], store_issued)"
    by (simp add: password_reset_request_def store_alice_def store_issued_def alice_def
          token_T_def ticking_clock_def insert_one_def timedelta_hours_def Let_def)
  note once = fresh_token_redeems_once
    [where db = store_alice and em = "''a@x.com''" and tk = "''T''"
       and clk_issue = "ticking_clock 100" and clk_first = "ticking_clock 200"
       and clk_second = "ticking_clock 300" and e = test_env and pw = "''p2''"
       and pw' = "''p3''", OF h1 h2 h3]
  from once have "fst (password_reset_confirm test_env (ticking_clock 200) ''T'' ''p2'' store_issued) =
       Inr [(''ok'', JBool True), (''message'', JStr ''Password has been reset.'')]
   \<and> password_reset_confirm test_env (ticking_clock 300) ''T'' ''p3''
        (snd (password_reset_confirm test_env (ticking_clock 200) ''T'' ''p2'' store_issued)) =
       (Inl (HTTPException 400 ''Invalid token''),
        snd (password_reset_confirm test_env (ticking_clock 200) ''T'' ''p2'' store_issued))"
    unfolding Let_def issued snd_conv by blast
  with h1 h2 h3 issued show ?thesis by blast
qed

section \<open>The login route\<close>

lemma login_no_user:
  "\<forall>u\<in>set (user db). email u \<noteq> em \<Longrightarrow>
   login e clk em pw db = (Inl (HTTPException 401 ''Invalid credentials''), db)"
  by (simp add: login_def find_one_None_iff [THEN iffD2])

lemma login_found:
  assumes "first_match (\<lambda>u. email u = em) (user db) i"
  shows "login e clk em pw db =
     (if hashed_password (user db ! i) \<noteq> hash_password e pw
      then (Inl (HTTPException 401 ''Invalid credentials''), db)
      else (Inr [(''ok'', JBool True),
                 (''token'', JStr (sha256_hexdigest e (em @ '':'' @ str_datetime e (clk 0)))),
                 (''user'', JObj [(''email'', JStr (email (user db ! i))),
                                  (''name'', (case name (user db ! i) of None \<Rightarrow> JNull
                                              | Some n \<Rightarrow> JStr n))])],
            db))"
  using find_one_Some_iff [of "\<lambda>u. email u = em" "user db" i "user db ! i"] assms
  by (simp add: login_def)

text \<open>
  C5. \<open>login\<close> raises exactly when no user document has the email or the digest stored in
  the document found differs from \<open>hash_password password\<close>; it raises nothing but
  401 "Invalid credentials", and the response is the same value in the two cases.
\<close>

theorem login_invalid_credentials:
  "((\<exists>ex. fst (login e clk em pw db) = Inl ex) \<longleftrightarrow>
      (\<forall>u\<in>set (user db). email u \<noteq> em) \<or>
      (\<exists>i. first_match (\<lambda>u. email u = em) (user db) i \<and>
           hashed_password (user db ! i) \<noteq> hash_password e pw))
   \<and> (\<forall>ex. fst (login e clk em pw db) = Inl ex \<longrightarrow>
         ex = HTTPException 401 ''Invalid credentials'' \<and>
         http_status (fst (login e clk em pw db)) = 401)
   \<and> ((\<forall>u\<in>set (user db). email u \<noteq> em) \<longrightarrow>
         login e clk em pw db = (Inl (HTTPException 401 ''Invalid credentials''), db))
   \<and> (\<forall>i. first_match (\<lambda>u. email u = em) (user db) i \<and>
           hashed_password (user db ! i) \<noteq> hash_password e pw \<longrightarrow>
         login e clk em pw db = (Inl (HTTPException 401 ''Invalid credentials''), db))"
proof (cases "\<forall>u\<in>set (user db). email u \<noteq> em")
  case True
  then have no: "\<not> first_match (\<lambda>u. email u = em) (user db) i" for i
    by (auto simp: first_match_def)
  from True show ?thesis
    by (simp add: login_no_user no)
next
  case False
  then obtain i where i: "first_match (\<lambda>u. email u = em) (user db) i"
    using first_match_exists [of "user db" "\<lambda>u. email u = em"] by auto
  then have only: "j = i" if "first_match (\<lambda>u. email u = em) (user db) j" for j
    using that first_match_unique by fastforce
  show ?thesis
  proof (cases "hashed_password (user db ! i) \<noteq> hash_password e pw")
    case True
    with False i show ?thesis
      by (auto simp: login_found [OF i] dest: only)
  next
    case no_diff: False
    have "\<not> (\<exists>j. first_match (\<lambda>u. email u = em) (user db) j \<and>
           hashed_password (user db ! j) \<noteq> hash_password e pw)"
      using only no_diff by blast
    moreover have "\<exists>body. login e clk em pw db = (Inr body, db)"
      using no_diff by (simp add: login_found [OF i])
    ultimately show ?thesis
      using False by auto
  qed
qed

theorem login_invalid_credentials_witness:
  "\<not> (\<exists>u\<in>set (user store_alice). email u = ''nobody@x.com'')
   \<and> login test_env (frozen_clock 50) ''nobody@x.com'' ''p1'' store_alice =
       (Inl (HTTPException 401 ''Invalid credentials''), store_alice)
   \<and> first_match (\<lambda>u. email u = ''a@x.com'') (user store_alice) 0
   \<and> hashed_password (user store_alice ! 0) \<noteq> hash_password test_env ''wrong''
   \<and> login test_env (frozen_clock 50) ''a@x.com'' ''wrong'' store_alice =
       (Inl (HTTPException 401 ''Invalid credentials''), store_alice)"
proof -
  have h1: "\<forall>u\<in>set (user store_alice). email u \<noteq> ''nobody@x.com''"
    by (simp add: store_alice_def alice_def)
  have h2: "first_match (\<lambda>u. email u = ''a@x.com'') (user store_alice) 0"
    by (simp add: first_match_def store_alice_def alice_def)
  have h3: "hashed_password (user store_alice ! 0) \<noteq> hash_password test_env ''wrong''"
    by (simp add: store_alice_def alice_def hash_password_def getenv_def test_env_def)
  from login_invalid_credentials
         [where e = test_env and clk = "frozen_clock 50" and em = "''nobody@x.com''"
            and pw = "''p1''" and db = store_alice] h1
  have c1: "login test_env (frozen_clock 50) ''nobody@x.com'' ''p1'' store_alice =
       (Inl (HTTPException 401 ''Invalid credentials''), store_alice)"
    by blast
  from login_invalid_credentials
         [where e = test_env and clk = "frozen_clock 50" and em = "''a@x.com''"
            and pw = "''wrong''" and db = store_alice] h2 h3
  have c2: "login test_env (frozen_clock 50) ''a@x.com'' ''wrong'' store_alice =
       (Inl (HTTPException 401 ''Invalid credentials''), store_alice)"
    by blast
  from h1 h2 h3 c1 c2 show ?thesis by blast
qed

section \<open>The signup route\<close>

lemma map_email_update_one:
  "\<forall>x. email (f x) = email x \<Longrightarrow> map email (update_one P f xs) = map email xs"
  by (induction xs) auto

lemma handle_keeps_emails:
  "set (map email (user db)) \<subseteq> set (map email (user (snd (handle e clk uu rq db))))"
proof (cases rq)
  case (Signup em pw nm)
  then show ?thesis
    by (auto simp: signup_def insert_one_def split: option.splits)
next
  case (Login em pw)
  then show ?thesis
    by (auto simp: login_def split: option.splits)
next
  case (Forgot em)
  then show ?thesis
    by (auto simp: password_reset_request_def Let_def split: option.splits)
next
  case (Reset tok pw)
  have "map email (user (snd (password_reset_confirm e clk tok pw db))) = map email (user db)"
    by (auto simp: password_reset_confirm_def Let_def map_email_update_one
             split: option.splits)
  with Reset show ?thesis by simp
qed

lemma run_keeps_emails:
  "set (map email (user db)) \<subseteq> set (map email (user (run e rqs db)))"
proof (induction rqs arbitrary: db)
  case Nil
  show ?case by simp
next
  case (Cons a rqs)
  obtain clk uu rq where a: "a = (clk, uu, rq)" by (cases a)
  have "set (map email (user db)) \<subseteq> set (map email (user (snd (handle e clk uu rq db))))"
    by (rule handle_keeps_emails)
  also have "\<dots> \<subseteq> set (map email (user (run e rqs (snd (handle e clk uu rq db)))))"
    by (rule Cons.IH)
  finally show ?case by (simp add: a)
qed

lemma signup_duplicate:
  "\<exists>u\<in>set (user db). email u = em \<Longrightarrow>
   signup e clk em pw nm db = (Inl (HTTPException 400 ''Email already registered''), db)"
proof -
  assume "\<exists>u\<in>set (user db). email u = em"
  then have "find_one (\<lambda>u. email u = em) (user db) \<noteq> None"
    by (simp add: find_one_None_iff)
  then show ?thesis by (auto simp: signup_def)
qed

lemma signup_new:
  "\<forall>u\<in>set (user db). email u \<noteq> em \<Longrightarrow>
   signup e clk em pw nm db =
     (Inr [(''ok'', JBool True), (''message'', JStr ''Account created. You can now log in.'')],
      db\<lparr>user := user db @ [\<lparr>email = em, name = nm, hashed_password = hash_password e pw,
                              User.created_at = clk 0, User.updated_at = clk 1\<rparr>]\<rparr>)"
  by (simp add: signup_def insert_one_def find_one_None_iff [THEN iffD2])

lemma email_registered_after_signup:
  "em \<in> set (map email (user (snd (signup e clk em pw nm db))))"
proof (cases "\<exists>u\<in>set (user db). email u = em")
  case True
  then show ?thesis by (auto simp: signup_duplicate)
next
  case False
  then show ?thesis by (simp add: signup_new)
qed

text \<open>
  C6. \<open>signup\<close> raises 400 "Email already registered" when a user document has exactly
  the given email (string equality, so case matters) and writes nothing. Otherwise it
  returns the ok body and appends one user document holding the email, the name,
  \<open>hash_password password\<close>, and the clock reads taken for \<open>created_at\<close> and \<open>updated_at\<close>.
  After a signup with an email, however that signup ended and whatever auth requests
  follow, every later signup with the same email raises the same error.
\<close>

theorem signup_duplicate_or_insert:
  "((\<exists>u\<in>set (user db). email u = em) \<longrightarrow>
      signup e clk em pw nm db =
        (Inl (HTTPException 400 ''Email already registered''), db))
   \<and> ((\<forall>u\<in>set (user db). email u \<noteq> em) \<longrightarrow>
      signup e clk em pw nm db =
        (Inr [(''ok'', JBool True),
              (''message'', JStr ''Account created. You can now log in.'')],
         db\<lparr>user := user db @
               [\<lparr>email = em, name = nm, hashed_password = hash_password e pw,
                 User.created_at = clk 0, User.updated_at = clk 1\<rparr>]\<rparr>))
   \<and> (\<forall>e_between rqs e_again clk_again pw_again nm_again.
        fst (signup e_again clk_again em pw_again nm_again
               (run e_between rqs (snd (signup e clk em pw nm db)))) =
        Inl (HTTPException 400 ''Email already registered''))"
proof (intro conjI allI impI)
  assume "\<exists>u\<in>set (user db). email u = em"
  then show "signup e clk em pw nm db =
        (Inl (HTTPException 400 ''Email already registered''), db)"
    by (rule signup_duplicate)
next
  assume "\<forall>u\<in>set (user db). email u \<noteq> em"
  then show "signup e clk em pw nm db =
        (Inr [(''ok'', JBool True),
              (''message'', JStr ''Account created. You can now log in.'')],
         db\<lparr>user := user db @
               [\<lparr>email = em, name = nm, hashed_password = hash_password e pw,
                 User.created_at = clk 0, User.updated_at = clk 1\<rparr>]\<rparr>)"
    by (rule signup_new)
next
  fix e_between rqs e_again clk_again pw_again nm_again
  let ?later = "run e_between rqs (snd (signup e clk em pw nm db))"
  have "em \<in> set (map email (user ?later))"
    using email_registered_after_signup [of em e clk pw nm db]
      run_keeps_emails [of "snd (signup e clk em pw nm db)" e_between rqs]
    by blast
  then have "\<exists>u\<in>set (user ?later). email u = em" by auto
  then show "fst (signup e_again clk_again em pw_again nm_again ?later) =
        Inl (HTTPException 400 ''Email already registered'')"
    by (simp add: signup_duplicate)
qed

theorem signup_duplicate_or_insert_witness:
  "(\<exists>u\<in>set (user store_alice). email u = ''a@x.com'')
   \<and> signup test_env (frozen_clock 500) ''a@x.com'' ''p9'' None store_alice =
       (Inl (HTTPException 400 ''Email already registered''), store_alice)
   \<and> \<not> (\<exists>u\<in>set (user store_alice). email u = ''A@x.com'')
   \<and> signup test_env (frozen_clock 500) ''A@x.com'' ''p9'' (Some ''Ann'') store_alice =
       (Inr [(''ok'', JBool True),
             (''message'', JStr ''Account created. You can now log in.'')],
        \<lparr>user = [alice, ann], passwordresettoken = []\<rparr>)
   \<and> signup test_env (ticking_clock 10) ''a@x.com'' ''p1'' None store_empty =
       (Inr [(''ok'', JBool True),
             (''message'', JStr ''Account created. You can now log in.'')],
        store_alice)
   \<and> fst (signup test_env (frozen_clock 900) ''a@x.com'' ''zz'' None
         (run test_env
            [(ticking_clock 100, ''T'', Forgot ''a@x.com''),
             (ticking_clock 200, [], Reset ''T'' ''p2'')]
            (snd (signup test_env (ticking_clock 10) ''a@x.com'' ''p1'' None
                    store_empty)))) =
       Inl (HTTPException 400 ''Email already registered'')"
proof -
  have h1: "\<exists>u\<in>set (user store_alice). email u = ''a@x.com''"
    by (simp add: store_alice_def alice_def)
  have h2: "\<forall>u\<in>set (user store_alice). email u \<noteq> ''A@x.com''"
    by (simp add: store_alice_def alice_def)
  have h3: "\<forall>u\<in>set (user store_empty). email u \<noteq> ''a@x.com''"
    by (simp add: store_empty_def)
  from signup_duplicate_or_insert
         [where db = store_alice and em = "''a@x.com''" and e = test_env
            and clk = "frozen_clock 500" and pw = "''p9''" and nm = None] h1
  have c1: "signup test_env (frozen_clock 500) ''a@x.com'' ''p9'' None store_alice =
       (Inl (HTTPException 400 ''Email already registered''), store_alice)"
    by blast
  from signup_duplicate_or_insert
         [where db = store_alice and em = "''A@x.com''" and e = test_env
            and clk = "frozen_clock 500" and pw = "''p9''" and nm = "Some ''Ann''"] h2
  have "signup test_env (frozen_clock 500) ''A@x.com'' ''p9'' (Some ''Ann'') store_alice =
        (Inr [(''ok'', JBool True),
              (''message'', JStr ''Account created. You can now log in.'')],
         store_alice\<lparr>user := user store_alice @
               [\<lparr>email = ''A@x.com'', name = Some ''Ann'',
                 hashed_password = hash_password test_env ''p9'',
                 User.created_at = frozen_clock 500 0,
                 User.updated_at = frozen_clock 500 1\<rparr>]\<rparr>)"
    by blast
  then have c2: "signup test_env (frozen_clock 500) ''A@x.com'' ''p9'' (Some ''Ann'') store_alice =
       (Inr [(''ok'', JBool True),
             (''message'', JStr ''Account created. You can now log in.'')],
        \<lparr>user = [alice, ann], passwordresettoken = []\<rparr>)"
    by (simp add: store_alice_def ann_def frozen_clock_def hash_password_def getenv_def
          test_env_def)
  from signup_duplicate_or_insert
         [where db = store_empty and em = "''a@x.com''" and e = test_env
            and clk = "ticking_clock 10" and pw = "''p1''" and nm = None] h3
  have "signup test_env (ticking_clock 10) ''a@x.com'' ''p1'' None store_empty =
        (Inr [(''ok'', JBool True),
              (''message'', JStr ''Account created. You can now log in.'')],
         store_empty\<lparr>user := user store_empty @
               [\<lparr>email = ''a@x.com'', name = None,
                 hashed_password = hash_password test_env ''p1'',
                 User.created_at = ticking_clock 10 0,
                 User.updated_at = ticking_clock 10 1\<rparr>]\<rparr>)"
    by blast
  then have c3: "signup test_env (ticking_clock 10) ''a@x.com'' ''p1'' None store_empty =
       (Inr [(''ok'', JBool True),
             (''message'', JStr ''Account created. You can now log in.'')],
        store_alice)"
    by (simp add: store_alice_def store_empty_def alice_def ticking_clock_def
          hash_password_def getenv_def test_env_def)
  from signup_duplicate_or_insert
         [where db = store_empty and em = "''a@x.com''" and e = test_env
            and clk = "ticking_clock 10" and pw = "''p1''" and nm = None]
  have c4: "fst (signup test_env (frozen_clock 900) ''a@x.com'' ''zz'' None
         (run test_env
            [(ticking_clock 100, ''T'', Forgot ''a@x.com''),
             (ticking_clock 200, [], Reset ''T'' ''p2'')]
            (snd (signup test_env (ticking_clock 10) ''a@x.com'' ''p1'' None
                    store_empty)))) =
       Inl (HTTPException 400 ''Email already registered'')"
    by blast
  from h1 h2 c1 c2 c3 c4 show ?thesis by blast
qed

section \<open>The forgot route\<close>

lemma forgot_no_user:
  "em \<notin> set (map email (user db)) \<Longrightarrow>
   password_reset_request clk tk em db =
     (Inr [(''ok'', JBool True),
           (''message'', JStr ''If that email exists, a reset link was sent.'')], db)"
proof -
  assume "em \<notin> set (map email (user db))"
  then have "find_one (\<lambda>u. email u = em) (user db) = None"
    by (auto simp: find_one_None_iff)
  then show ?thesis by (simp add: password_reset_request_def)
qed

lemma forgot_user:
  "em \<in> set (map email (user db)) \<Longrightarrow>
   password_reset_request clk tk em db =
     (Inr [(''ok'', JBool True), (''message'', JStr ''Reset email sent.''),
           (''preview_token'', JStr tk)],
      db\<lparr>passwordresettoken := passwordresettoken db @
            [\<lparr>user_email = em, token = tk, expires_at = clk 0 + 3600000000, used = False,
              PasswordResetToken.created_at = clk 1,
              PasswordResetToken.updated_at = clk 2\<rparr>]\<rparr>)"
proof -
  assume "em \<in> set (map email (user db))"
  then have "find_one (\<lambda>u. email u = em) (user db) \<noteq> None"
    by (auto simp: find_one_None_iff)
  then show ?thesis
    by (auto simp: password_reset_request_def insert_one_def timedelta_hours_def)
qed

text \<open>
  C2, amended. Whether or not the email belongs to a user, \<open>password_reset_request\<close>
  answers with status 200 and a body whose \<open>ok\<close> is true. For an email of no user it
  writes nothing and the body has no \<open>preview_token\<close>; for the email of a user the body
  carries \<open>preview_token\<close>, the token issued. So the two responses agree in status and in
  \<open>ok\<close>, and the presence of \<open>preview_token\<close> tells them apart.
\<close>

theorem password_reset_request_responses:
  "http_status (fst (password_reset_request clk tk em db)) = 200
   \<and> (\<exists>body. fst (password_reset_request clk tk em db) = Inr body
         \<and> map_of body ''ok'' = Some (JBool True)
         \<and> map_of body ''preview_token'' =
             (if em \<in> set (map email (user db)) then Some (JStr tk) else None))
   \<and> (em \<notin> set (map email (user db)) \<longrightarrow> snd (password_reset_request clk tk em db) = db)"
proof (cases "em \<in> set (map email (user db))")
  case True
  then show ?thesis unfolding forgot_user [OF True] by simp
next
  case False
  then show ?thesis unfolding forgot_no_user [OF False] by simp
qed

theorem password_reset_request_responses_witness:
  "''nobody@x.com'' \<notin> set (map email (user store_alice))
   \<and> snd (password_reset_request (ticking_clock 100) ''T'' ''nobody@x.com'' store_alice) =
       store_alice
   \<and> http_status (fst (password_reset_request (ticking_clock 100) ''T'' ''nobody@x.com''
                          store_alice)) = 200"
proof -
  have h: "''nobody@x.com'' \<notin> set (map email (user store_alice))"
    by (simp add: store_alice_def alice_def)
  with password_reset_request_responses
         [where db = store_alice and em = "''nobody@x.com''" and clk = "ticking_clock 100"
            and tk = "''T''"]
  show ?thesis by blast
qed

text \<open>
  The claim as written fails: in a store whose only user is \<open>a@x.com\<close>, the body returned
  for \<open>nobody@x.com\<close> has the keys \<open>ok\<close>, \<open>message\<close>, the body returned for \<open>a@x.com\<close> has
  the keys \<open>ok\<close>, \<open>message\<close>, \<open>preview_token\<close>, and the two responses differ.
\<close>

theorem password_reset_request_counterexample:
  "''nobody@x.com'' \<notin> set (map email (user store_alice))
   \<and> ''a@x.com'' \<in> set (map email (user store_alice))
   \<and> fst (password_reset_request (ticking_clock 100) ''T'' ''nobody@x.com'' store_alice) =
       Inr [(''ok'', JBool True),
            (''message'', JStr ''If that email exists, a reset link was sent.'')]
   \<and> fst (password_reset_request (ticking_clock 100) ''T'' ''a@x.com'' store_alice) =
       Inr [(''ok'', JBool True), (''message'', JStr ''Reset email sent.''),
            (''preview_token'', JStr ''T'')]
   \<and> fst (password_reset_request (ticking_clock 100) ''T'' ''nobody@x.com'' store_alice) \<noteq>
     fst (password_reset_request (ticking_clock 100) ''T'' ''a@x.com'' store_alice)"
  by (simp add: password_reset_request_def store_alice_def alice_def Let_def)

section \<open>The end-to-end scenario\<close>

text \<open>
  C7. A reset replaces the credential that login checks. The forgot route issues a token
  \<open>T\<close> for the email of an existing user (a uuid no unused token document carries), and
  \<open>password_reset_confirm\<close> with \<open>T\<close> and a new password succeeds. In the store this
  leaves, login with that email and any password whose digest differs from the new
  password's (the old password) raises 401 "Invalid credentials", and login with the new
  password returns the ok body with a token and the user.
\<close>

theorem reset_replaces_login_credential:
  assumes "\<exists>u\<in>set (user db). email u = em"
    and "\<forall>r\<in>set (passwordresettoken db). token r = tk \<longrightarrow> used r"
    and "fst (password_reset_confirm e clk_confirm tk new_pw
                (snd (password_reset_request clk_issue tk em db))) = Inr body"
    and "hash_password e old_pw \<noteq> hash_password e new_pw"
  shows "let issued = password_reset_request clk_issue tk em db;
             after = snd (password_reset_confirm e clk_confirm tk new_pw (snd issued))
         in map_of (projr (fst issued)) ''preview_token'' = Some (JStr tk)
          \<and> login e clk_old em old_pw after =
              (Inl (HTTPException 401 ''Invalid credentials''), after)
          \<and> http_status (fst (login e clk_old em old_pw after)) = 401
          \<and> (\<exists>session usr.
                login e clk_new em new_pw after =
                  (Inr [(''ok'', JBool True), (''token'', JStr session),
                        (''user'', JObj usr)], after))
          \<and> http_status (fst (login e clk_new em new_pw after)) = 200"
proof -
  let ?toks = "passwordresettoken db"
  let ?doc = "\<lparr>user_email = em, token = tk, expires_at = clk_issue 0 + 3600000000,
               used = False, PasswordResetToken.created_at = clk_issue 1,
               PasswordResetToken.updated_at = clk_issue 2\<rparr>"
  let ?issued_db = "db\<lparr>passwordresettoken := ?toks @ [?doc]\<rparr>"
  let ?P = "\<lambda>r. token r = tk \<and> used r = False"
  let ?f = "\<lambda>u. u\<lparr>hashed_password := hash_password e new_pw,
                    User.updated_at := clk_confirm 1\<rparr>"
  from assms(1) have "em \<in> set (map email (user db))" by auto
  note issued = forgot_user [OF this, of clk_issue tk]
  from assms(2) have fm: "first_match ?P (passwordresettoken ?issued_db) (length ?toks)"
    using first_match_append_new [of ?toks ?P ?doc] by auto
  have nexp: "\<not> expires_at (passwordresettoken ?issued_db ! length ?toks) < clk_confirm 0"
  proof
    assume "expires_at (passwordresettoken ?issued_db ! length ?toks) < clk_confirm 0"
    from confirm_expired [of tk ?issued_db "length ?toks" clk_confirm e new_pw, OF fm this]
    have "fst (password_reset_confirm e clk_confirm tk new_pw ?issued_db) =
            Inl (HTTPException 400 ''Token expired'')"
      by simp
    with assms(3) show False unfolding issued snd_conv by simp
  qed
  define after where
    "after = snd (password_reset_confirm e clk_confirm tk new_pw ?issued_db)"
  have users_after: "user after = update_one (\<lambda>u. email u = em) ?f (user db)"
    unfolding after_def
    using confirm_ok [of tk ?issued_db "length ?toks" clk_confirm e new_pw, OF fm nexp]
    by simp
  from assms(1) obtain j where j: "first_match (\<lambda>u. email u = em) (user db) j"
    using first_match_exists [of "user db" "\<lambda>u. email u = em"] by auto
  then have upd: "user after = (user db)[j := ?f (user db ! j)]"
    unfolding users_after by (simp add: update_one_hit)
  from j have fm_after: "first_match (\<lambda>u. email u = em) (user after) j"
    unfolding upd by (intro first_match_update) (simp_all add: first_match_def)
  from j have digest: "hashed_password (user after ! j) = hash_password e new_pw"
    unfolding upd by (simp add: first_match_def)
  have old: "login e clk_old em old_pw after =
              (Inl (HTTPException 401 ''Invalid credentials''), after)"
    using assms(4) [symmetric] digest by (simp add: login_found [OF fm_after])
  have new: "\<exists>session usr. login e clk_new em new_pw after =
                  (Inr [(''ok'', JBool True), (''token'', JStr session),
                        (''user'', JObj usr)], after)"
    using digest by (simp add: login_found [OF fm_after])
  from new have new_status: "http_status (fst (login e clk_new em new_pw after)) = 200"
    by auto
  from old have old_status: "http_status (fst (login e clk_old em old_pw after)) = 401"
    by simp
  have preview: "map_of (projr (fst (password_reset_request clk_issue tk em db)))
                   ''preview_token'' = Some (JStr tk)"
    unfolding issued by simp
  have after_eq: "snd (password_reset_confirm e clk_confirm tk new_pw
                    (snd (password_reset_request clk_issue tk em db))) = after"
    unfolding issued snd_conv after_def ..
  show ?thesis
    unfolding Let_def after_eq
    using preview old old_status new new_status by (intro conjI)
qed

theorem reset_replaces_login_credential_witness:
  "signup test_env (ticking_clock 10) ''a@x.com'' ''p1'' None store_empty =
     (Inr [(''ok'', JBool True),
           (''message'', JStr ''Account created. You can now log in.'')], store_alice)
   \<and> fst (login test_env (ticking_clock 20) ''a@x.com'' ''p1'' store_alice) =
       Inr [(''ok'', JBool True), (''token'', JStr ''a@x.com:''),
            (''user'', JObj [(''email'', JStr ''a@x.com''), (''name'', JNull)])]
   \<and> http_status (fst (login test_env (ticking_clock 30) ''a@x.com'' ''wrong''
                          store_alice)) = 401
   \<and> password_reset_request (ticking_clock 100) ''T'' ''a@x.com'' store_alice =
       (Inr [(''ok'', JBool True), (''message'', JStr ''Reset email sent.''),
             (''preview_token'', JStr ''T'')], store_issued)
   \<and> fst (password_reset_confirm test_env (ticking_clock 200) ''T'' ''p2'' store_issued) =
       Inr [(''ok'', JBool True), (''message'', JStr ''Password has been reset.'')]
   \<and> hash_password test_env ''p1'' \<noteq> hash_password test_env ''p2''
   \<and> http_status
        (fst (login test_env (ticking_clock 300) ''a@x.com'' ''p1''
                (snd (password_reset_confirm test_env (ticking_clock 200) ''T'' ''p2''
                        store_issued)))) = 401
   \<and> http_status
        (fst (login test_env (ticking_clock 400) ''a@x.com'' ''p2''
                (snd (password_reset_confirm test_env (ticking_clock 200) ''T'' ''p2''
                        store_issued)))) = 200"
proof -
  have s1: "signup test_env (ticking_clock 10) ''a@x.com'' ''p1'' None store_empty =
     (Inr [(''ok'', JBool True),
           (''message'', JStr ''Account created. You can now log in.'')], store_alice)"
    by (simp add: signup_def store_empty_def store_alice_def alice_def ticking_clock_def
          hash_password_def getenv_def test_env_def insert_one_def)
  have s2: "fst (login test_env (ticking_clock 20) ''a@x.com'' ''p1'' store_alice) =
       Inr [(''ok'', JBool True), (''token'', JStr ''a@x.com:''),
            (''user'', JObj [(''email'', JStr ''a@x.com''), (''name'', JNull)])]"
    by (simp add: login_def store_alice_def alice_def hash_password_def getenv_def
          test_env_def)
  have s3: "http_status (fst (login test_env (ticking_clock 30) ''a@x.com'' ''wrong''
                          store_alice)) = 401"
    by (simp add: login_def store_alice_def alice_def hash_password_def getenv_def
          test_env_def)
  have s4: "password_reset_request (ticking_clock 100) ''T'' ''a@x.com'' store_alice =
       (Inr [(''ok'', JBool True), (''message'', JStr ''Reset email sent.''),
             (''preview_token'', JStr ''T'')], store_issued)"
    by (simp add: password_reset_request_def store_alice_def store_issued_def alice_def
          token_T_def ticking_clock_def insert_one_def timedelta_hours_def Let_def)
  have s5: "fst (password_reset_confirm test_env (ticking_clock 200) ''T'' ''p2'' store_issued) =
       Inr [(''ok'', JBool True), (''message'', JStr ''Password has been reset.'')]"
    by (simp add: password_reset_confirm_def store_issued_def token_T_def ticking_clock_def)
  have h1: "\<exists>u\<in>set (user store_alice). email u = ''a@x.com''"
    by (simp add: store_alice_def alice_def)
  have h2: "\<forall>r\<in>set (passwordresettoken store_alice). token r = ''T'' \<longrightarrow> used r"
    by (simp add: store_alice_def)
  have h3: "fst (password_reset_confirm test_env (ticking_clock 200) ''T'' ''p2''
                (snd (password_reset_request (ticking_clock 100) ''T'' ''a@x.com''
                        store_alice))) =
            Inr [(''ok'', JBool True), (''message'', JStr ''Password has been reset.'')]"
    unfolding s4 snd_conv by (rule s5)
  have h4: "hash_password test_env ''p1'' \<noteq> hash_password test_env ''p2''"
    by (simp add: hash_password_def getenv_def test_env_def)
  note scenario = reset_replaces_login_credential
    [where db = store_alice and em = "''a@x.com''" and tk = "''T''" and e = test_env
       and clk_issue = "ticking_clock 100" and clk_confirm = "ticking_clock 200"
       and new_pw = "''p2''" and old_pw = "''p1''" and clk_old = "ticking_clock 300"
       and clk_new = "ticking_clock 400", OF h1 h2 h3 h4, unfolded Let_def s4 snd_conv]
  from scenario have s6: "http_status
        (fst (login test_env (ticking_clock 300) ''a@x.com'' ''p1''
                (snd (password_reset_confirm test_env (ticking_clock 200) ''T'' ''p2''
                        store_issued)))) = 401"
    by (rule conjunct2 [THEN conjunct2, THEN conjunct1])
  from scenario have s7: "http_status
        (fst (login test_env (ticking_clock 400) ''a@x.com'' ''p2''
                (snd (password_reset_confirm test_env (ticking_clock 200) ''T'' ''p2''
                        store_issued)))) = 200"
    by (rule conjunct2 [THEN conjunct2, THEN conjunct2, THEN conjunct2])
  from s1 s2 s3 s4 s5 h4 s6 s7 show ?thesis by (intro conjI)
qed

section \<open>The token the forgot route stores\<close>




section \<open>The hasher\<close>

subsection \<open>Running the digest\<close>

lemma zeros_numeral: "zeros (numeral n) = 0 # zeros (pred_numeral n)"
  by (simp add: numeral_eq_Suc)

lemma schedule_numeral:
  "schedule (numeral n) w =
     schedule (pred_numeral n)
       (w @ [add32 (add32 (add32 (sigma1 (w ! (len w - 2))) (w ! (len w - 7)))
                      (sigma0 (w ! (len w - 15)))) (w ! (len w - 16))])"
  by (simp add: numeral_eq_Suc)

lemma blocks_numeral:
  "blocks (numeral n) ws = take 16 ws # blocks (pred_numeral n) (drop 16 ws)"
  by (simp add: numeral_eq_Suc)

lemmas sha_run =
  sha256_hex_def sha256_def pad_def be_bytes8_def compress_def hex_word_def hex_digit_def
  initial_state_def round_constants_def add32_def rotr_def shr_def not32_def Ch_def Maj_def
  Sigma0_def Sigma1_def sigma0_def sigma1_def
  zeros_numeral schedule_numeral blocks_numeral Let_def

text \<open>The known answer of FIPS 180-4 for the message \<open>abc\<close>.\<close>

lemma sha256_hex_abc:
  "sha256_hex ''abc'' = ''ba7816bf8f01cfea414140de5dae2223b00361a396177a9cb410ff61f20015ad''"
  by (simp add: sha_run)




subsection \<open>The digest has 64 characters\<close>










end
